theory Spec2Isabelle
  imports Main
begin

section \<open>The relay registry of the port forwarder\<close>

text \<open>
  The Go type \<^verbatim>\<open>Forwarder\<close> holds two maps from key strings to listening resources
  and one mutex. The listening resources are values handed out by the platform's
  \<^verbatim>\<open>net\<close> package; here they are handles (natural numbers). The mutex is not a field
  of the record: every acquisition and release is an event of the trace that each
  operation returns, in the order in which the source executes them. A payload is the
  list of the bytes of a slice \<^verbatim>\<open>buf[:n]\<close>, each byte a natural number.
\<close>

type_synonym listener = nat
type_synonym udpconn = nat
type_synonym udpaddr = "string \<times> nat"
type_synonym payload = "nat list"

record Forwarder =
  tcpListeners :: "string \<rightharpoonup> listener"
  udpListeners :: "string \<rightharpoonup> udpconn"

definition NewForwarder :: Forwarder where
  "NewForwarder = \<lparr>tcpListeners = Map.empty, udpListeners = Map.empty\<rparr>"

text \<open>
  The calls into the platform's \<^verbatim>\<open>net\<close> package. The package is not part of the
  repository, so the outcome of each call is a parameter: \<open>None\<close> (or \<open>False\<close> for a
  close) stands for a non-nil \<^verbatim>\<open>err\<close>.
\<close>

record net =
  net_Listen :: "string \<Rightarrow> listener option"
  net_ResolveUDPAddr :: "string \<Rightarrow> udpaddr option"
  net_ListenUDP :: "udpaddr \<Rightarrow> udpconn option"
  net_Dial :: "string \<Rightarrow> nat option"
  listener_Close :: "listener \<Rightarrow> bool"
  udpconn_Close :: "udpconn \<Rightarrow> bool"

text \<open>The errors that the four start and stop operations build with \<^verbatim>\<open>fmt.Errorf\<close>.\<close>

datatype error =
    AlreadyRunning   \<comment> \<open>\<^verbatim>\<open>"... forward already running on %s:%s"\<close>\<close>
  | ListenFailed     \<comment> \<open>\<^verbatim>\<open>"failed to listen on ...: %w"\<close>\<close>
  | ResolveFailed    \<comment> \<open>\<^verbatim>\<open>"failed to resolve listen address: %w"\<close>\<close>
  | NotRunning       \<comment> \<open>\<^verbatim>\<open>"... forward not running on %s:%s"\<close>\<close>
  | CloseFailed      \<comment> \<open>\<^verbatim>\<open>"failed to close listener: %w"\<close>, \<^verbatim>\<open>"failed to close UDP connection: %w"\<close>\<close>

text \<open>What an operation does besides computing its result, in program order.\<close>

datatype event =
    Lock
  | Unlock
  | MapLookup string
  | MapInsert string
  | MapDelete string
  | CallListen string
  | CallResolveUDPAddr string
  | CallListenUDP udpaddr
  | CallDial string
  | CallCloseListener listener
  | CallCloseUDPConn udpconn
  | CallCloseConn nat
  | CallRead nat
  | CallWrite nat payload
  | CallReadFromUDP udpconn
  | CallWriteToUDP udpconn payload udpaddr
  | Go_handleTCPForward listener string string
  | Go_handleUDPForward udpconn string string
  | Go_reply udpaddr
  | Log string

definition tcpKey :: "string \<Rightarrow> string \<Rightarrow> string" where
  "tcpKey listenAddr listenPort = ''tcp:'' @ listenAddr @ '':'' @ listenPort"

definition udpKey :: "string \<Rightarrow> string \<Rightarrow> string" where
  "udpKey listenAddr listenPort = ''udp:'' @ listenAddr @ '':'' @ listenPort"

definition hostPort :: "string \<Rightarrow> string \<Rightarrow> string" where
  "hostPort a p = a @ '':'' @ p"

text \<open>
  Every operation locks the mutex first and defers the unlock, so the unlock is the last
  event on each path. The result is the returned error (\<open>None\<close> for \<^verbatim>\<open>nil\<close>), the
  forwarder after the call, and the trace.
\<close>

definition StartTCPForward ::
  "net \<Rightarrow> Forwarder \<Rightarrow> string \<Rightarrow> string \<Rightarrow> string \<Rightarrow> string
     \<Rightarrow> error option \<times> Forwarder \<times> event list" where
  "StartTCPForward os f listenAddr listenPort targetAddr targetPort =
     (let key = tcpKey listenAddr listenPort in
      if tcpListeners f key \<noteq> None
      then (Some AlreadyRunning, f, [Lock, MapLookup key, Unlock])
      else
        let addr = hostPort listenAddr listenPort in
        case net_Listen os addr of
          None \<Rightarrow> (Some ListenFailed, f, [Lock, MapLookup key, CallListen addr, Unlock])
        | Some l \<Rightarrow>
            (None, f\<lparr>tcpListeners := (tcpListeners f)(key \<mapsto> l)\<rparr>,
             [Lock, MapLookup key, CallListen addr, MapInsert key,
              Go_handleTCPForward l targetAddr targetPort,
              Log ''Started TCP forward'', Unlock]))"

definition StopTCPForward ::
  "net \<Rightarrow> Forwarder \<Rightarrow> string \<Rightarrow> string \<Rightarrow> error option \<times> Forwarder \<times> event list" where
  "StopTCPForward os f listenAddr listenPort =
     (let key = tcpKey listenAddr listenPort in
      case tcpListeners f key of
        None \<Rightarrow> (Some NotRunning, f, [Lock, MapLookup key, Unlock])
      | Some l \<Rightarrow>
          if \<not> listener_Close os l
          then (Some CloseFailed, f, [Lock, MapLookup key, CallCloseListener l, Unlock])
          else (None, f\<lparr>tcpListeners := (tcpListeners f)(key := None)\<rparr>,
                [Lock, MapLookup key, CallCloseListener l, MapDelete key,
                 Log ''Stopped TCP forward'', Unlock]))"

definition StartUDPForward ::
  "net \<Rightarrow> Forwarder \<Rightarrow> string \<Rightarrow> string \<Rightarrow> string \<Rightarrow> string
     \<Rightarrow> error option \<times> Forwarder \<times> event list" where
  "StartUDPForward os f listenAddr listenPort targetAddr targetPort =
     (let key = udpKey listenAddr listenPort in
      if udpListeners f key \<noteq> None
      then (Some AlreadyRunning, f, [Lock, MapLookup key, Unlock])
      else
        let s = hostPort listenAddr listenPort in
        case net_ResolveUDPAddr os s of
          None \<Rightarrow> (Some ResolveFailed, f, [Lock, MapLookup key, CallResolveUDPAddr s, Unlock])
        | Some addr \<Rightarrow>
            (case net_ListenUDP os addr of
               None \<Rightarrow>
                 (Some ListenFailed, f,
                  [Lock, MapLookup key, CallResolveUDPAddr s, CallListenUDP addr, Unlock])
             | Some conn \<Rightarrow>
                 (None, f\<lparr>udpListeners := (udpListeners f)(key \<mapsto> conn)\<rparr>,
                  [Lock, MapLookup key, CallResolveUDPAddr s, CallListenUDP addr,
                   MapInsert key, Go_handleUDPForward conn targetAddr targetPort,
                   Log ''Started UDP forward'', Unlock])))"

definition StopUDPForward ::
  "net \<Rightarrow> Forwarder \<Rightarrow> string \<Rightarrow> string \<Rightarrow> error option \<times> Forwarder \<times> event list" where
  "StopUDPForward os f listenAddr listenPort =
     (let key = udpKey listenAddr listenPort in
      case udpListeners f key of
        None \<Rightarrow> (Some NotRunning, f, [Lock, MapLookup key, Unlock])
      | Some conn \<Rightarrow>
          if \<not> udpconn_Close os conn
          then (Some CloseFailed, f, [Lock, MapLookup key, CallCloseUDPConn conn, Unlock])
          else (None, f\<lparr>udpListeners := (udpListeners f)(key := None)\<rparr>,
                [Lock, MapLookup key, CallCloseUDPConn conn, MapDelete key,
                 Log ''Stopped UDP forward'', Unlock]))"

definition IsTCPRunning :: "Forwarder \<Rightarrow> string \<Rightarrow> string \<Rightarrow> bool \<times> event list" where
  "IsTCPRunning f listenAddr listenPort =
     (let key = tcpKey listenAddr listenPort in
      (tcpListeners f key \<noteq> None, [Lock, MapLookup key, Unlock]))"

definition IsUDPRunning :: "Forwarder \<Rightarrow> string \<Rightarrow> string \<Rightarrow> bool \<times> event list" where
  "IsUDPRunning f listenAddr listenPort =
     (let key = udpKey listenAddr listenPort in
      (udpListeners f key \<noteq> None, [Lock, MapLookup key, Unlock]))"

text \<open>The closes in a trace: of a listener, of a datagram socket, of a connection.\<close>

fun is_close :: "event \<Rightarrow> bool" where
  "is_close (CallCloseListener l) = True"
| "is_close (CallCloseUDPConn c) = True"
| "is_close (CallCloseConn c) = True"
| "is_close e = False"

definition closes :: "event list \<Rightarrow> event list" where
  "closes tr = filter is_close tr"

abbreviation err_of :: "'e \<times> 'f \<times> 't \<Rightarrow> 'e" where
  "err_of r \<equiv> fst r"

abbreviation fwd_of :: "'e \<times> 'f \<times> 't \<Rightarrow> 'f" where
  "fwd_of r \<equiv> fst (snd r)"

abbreviation trace_of :: "'e \<times> 'f \<times> 't \<Rightarrow> 't" where
  "trace_of r \<equiv> snd (snd r)"

text \<open>
  The calls that leave the process: bind and listen, address resolution, dial, close.
  \<open>io_under_lock h tr\<close> tells whether the trace \<open>tr\<close>, started with the mutex held or
  not as \<open>h\<close> says, makes one of them while the mutex is held.
\<close>

fun is_io :: "event \<Rightarrow> bool" where
  "is_io (CallListen s) = True"
| "is_io (CallResolveUDPAddr s) = True"
| "is_io (CallListenUDP a) = True"
| "is_io (CallDial s) = True"
| "is_io (CallCloseListener l) = True"
| "is_io (CallCloseUDPConn c) = True"
| "is_io (CallCloseConn c) = True"
| "is_io e = False"


text \<open>
  A trace that is one critical section: it starts with the lock, ends with the unlock,
  and neither occurs in between.
\<close>

fun one_critical_section :: "event list \<Rightarrow> bool" where
  "one_critical_section (Lock # e # tr) =
     (last (e # tr) = Unlock \<and> Lock \<notin> set (butlast (e # tr)) \<and> Unlock \<notin> set (butlast (e # tr)))"
| "one_critical_section tr = False"

text \<open>
  The spec's words on ports, for comparison with the code: a port string is acceptable
  when it is a decimal number in the range 1 to 65535.
\<close>

definition spec_port_number :: "string \<Rightarrow> nat option" where
  "spec_port_number p =
     (if p \<noteq> [] \<and> list_all (\<lambda>c. c \<in> set ''0123456789'') p
      then Some (foldl (\<lambda>n c. 10 * n + (of_char c - 48)) 0 p) else None)"

definition spec_port_ok :: "string \<Rightarrow> bool" where
  "spec_port_ok p = (case spec_port_number p of None \<Rightarrow> False | Some n \<Rightarrow> 1 \<le> n \<and> n \<le> 65535)"

section \<open>The per-connection byte pump\<close>

text \<open>
  One copy task of \<^verbatim>\<open>forwardData\<close>: read from one connection into a 4096-byte
  buffer, stop at the first read that returns an error (end of stream is the error
  \<^verbatim>\<open>io.EOF\<close>), write what was read to the other connection when it is not empty, stop
  at the first failed write. The peers decide what the calls return: the script gives,
  for each round of the loop, the result of the read and whether the write that may
  follow succeeds. A read that returns an error ends the task whatever it has read, so
  the two error results carry no bytes. When the script is used up the next read never
  returns: no code of a copy task closes a connection, so nothing on this side can wake
  it. The result is the calls made and whether the task has ended.
\<close>

datatype read_result = ReadData payload | ReadEOF | ReadIOError

type_synonym copy_script = "(read_result \<times> bool) list"

fun copyLoop :: "nat \<Rightarrow> nat \<Rightarrow> copy_script \<Rightarrow> event list \<times> bool" where
  "copyLoop src dst [] = ([CallRead src], False)"
| "copyLoop src dst ((ReadEOF, w) # rest) = ([CallRead src], True)"
| "copyLoop src dst ((ReadIOError, w) # rest) = ([CallRead src], True)"
| "copyLoop src dst ((ReadData b, w) # rest) =
     (if b = [] then (CallRead src # fst (copyLoop src dst rest), snd (copyLoop src dst rest))
      else if \<not> w then ([CallRead src, CallWrite dst b], True)
      else (CallRead src # CallWrite dst b # fst (copyLoop src dst rest),
            snd (copyLoop src dst rest)))"

text \<open>
  \<^verbatim>\<open>forwardData\<close> starts both copy tasks and waits for the two of them
  (\<^verbatim>\<open>wg.Wait()\<close>): it returns when both have ended. The two traces stay apart, the
  tasks run concurrently.
\<close>

definition forwardData ::
  "nat \<Rightarrow> nat \<Rightarrow> copy_script \<Rightarrow> copy_script \<Rightarrow> event list \<times> event list \<times> bool" where
  "forwardData src dst s2d d2s =
     (fst (copyLoop src dst s2d), fst (copyLoop dst src d2s),
      snd (copyLoop src dst s2d) \<and> snd (copyLoop dst src d2s))"

text \<open>
  The function that \<^verbatim>\<open>handleTCPForward\<close> starts for each accepted connection: the
  close of the accepted connection is deferred, the target is dialled, the close of the
  target connection is deferred, and \<^verbatim>\<open>forwardData\<close> is called. Deferred calls run
  when the function returns, the last one first. The result is the trace of this
  function itself and whether it has returned.
\<close>

definition handleTCPForward_conn ::
  "net \<Rightarrow> nat \<Rightarrow> string \<Rightarrow> copy_script \<Rightarrow> copy_script \<Rightarrow> event list \<times> bool" where
  "handleTCPForward_conn os conn target s2d d2s =
     (case net_Dial os target of
        None \<Rightarrow>
          ([CallDial target, Log ''Error connecting to target'', CallCloseConn conn], True)
      | Some targetConn \<Rightarrow>
          if snd (snd (forwardData conn targetConn s2d d2s))
          then ([CallDial target, CallCloseConn targetConn, CallCloseConn conn], True)
          else ([CallDial target], False))"

text \<open>A round of a copy task that ends it.\<close>

fun ends_copy :: "read_result \<times> bool \<Rightarrow> bool" where
  "ends_copy (ReadEOF, w) = True"
| "ends_copy (ReadIOError, w) = True"
| "ends_copy (ReadData b, w) = (b \<noteq> [] \<and> \<not> w)"

section \<open>The datagram relay\<close>

text \<open>
  \<^verbatim>\<open>handleUDPForward\<close> resolves the target, then loops: read a datagram from the
  listening socket into a 65535-byte buffer, stop at a read error; write the bytes read
  to the target through the same socket; when that write fails, log and go on with the
  next read; otherwise start a reply task with the sender's address. The script gives,
  for each round, the result of the read and whether the write succeeds; when it is
  used up the next read never returns.
\<close>

datatype udp_read = UDPReadError | Datagram payload udpaddr

type_synonym udp_script = "(udp_read \<times> bool) list"

fun udpLoop :: "udpconn \<Rightarrow> udpaddr \<Rightarrow> udp_script \<Rightarrow> event list \<times> bool" where
  "udpLoop conn target [] = ([CallReadFromUDP conn], False)"
| "udpLoop conn target ((UDPReadError, w) # rest) =
     ([CallReadFromUDP conn, Log ''Error reading UDP data''], True)"
| "udpLoop conn target ((Datagram b addr, w) # rest) =
     (CallReadFromUDP conn # CallWriteToUDP conn b target
        # (if w then Go_reply addr else Log ''Error forwarding UDP data'')
        # fst (udpLoop conn target rest),
      snd (udpLoop conn target rest))"

definition handleUDPForward ::
  "net \<Rightarrow> udpconn \<Rightarrow> string \<Rightarrow> string \<Rightarrow> udp_script \<Rightarrow> event list \<times> bool" where
  "handleUDPForward os conn targetAddr targetPort script =
     (let s = hostPort targetAddr targetPort in
      case net_ResolveUDPAddr os s of
        None \<Rightarrow> ([CallResolveUDPAddr s, Log ''Error resolving target address''], True)
      | Some target \<Rightarrow>
          (CallResolveUDPAddr s # fst (udpLoop conn target script),
           snd (udpLoop conn target script)))"



fun is_resolve :: "event \<Rightarrow> bool" where
  "is_resolve (CallResolveUDPAddr s) = True"
| "is_resolve e = False"



section \<open>Platforms used in the examples\<close>

text \<open>A platform on which every call succeeds, and one on which every close fails.\<close>

definition good_net :: net where
  "good_net = \<lparr>net_Listen = (\<lambda>s. Some 1),
               net_ResolveUDPAddr = (\<lambda>s. Some (s, 0)),
               net_ListenUDP = (\<lambda>a. Some 2),
               net_Dial = (\<lambda>s. Some 3),
               listener_Close = (\<lambda>l. True),
               udpconn_Close = (\<lambda>c. True)\<rparr>"

definition bad_close_net :: net where
  "bad_close_net = good_net\<lparr>listener_Close := (\<lambda>l. False), udpconn_Close := (\<lambda>c. False)\<rparr>"

text \<open>A platform that refuses every bind and resolves no address.\<close>

definition no_bind_net :: net where
  "no_bind_net = good_net\<lparr>net_Listen := (\<lambda>s. None), net_ResolveUDPAddr := (\<lambda>s. None)\<rparr>"

text \<open>A platform that resolves the address \<^verbatim>\<open>127.0.0.1:19003\<close> and no other.\<close>

definition one_addr_net :: net where
  "one_addr_net =
     good_net\<lparr>net_ResolveUDPAddr :=
       (\<lambda>s. if s = ''127.0.0.1:19003'' then Some (''127.0.0.1'', 19003) else None)\<rparr>"

section \<open>Stopping a relay that is not registered\<close>

text \<open>
  C4. For every listen address and port with no registered session of the protocol,
  \<open>StopTCPForward\<close> (and \<open>StopUDPForward\<close>) returns the not-running error, returns the
  forwarder it was given (both maps unchanged) and closes nothing.
\<close>

theorem stop_not_running:
  "(tcpListeners f (tcpKey a p) = None \<longrightarrow>
      fst (StopTCPForward os f a p) = Some NotRunning
      \<and> fst (snd (StopTCPForward os f a p)) = f
      \<and> closes (snd (snd (StopTCPForward os f a p))) = [])
   \<and> (udpListeners f (udpKey a p) = None \<longrightarrow>
      fst (StopUDPForward os f a p) = Some NotRunning
      \<and> fst (snd (StopUDPForward os f a p)) = f
      \<and> closes (snd (snd (StopUDPForward os f a p))) = [])"
  by (simp add: StopTCPForward_def StopUDPForward_def closes_def)

theorem stop_not_running_witness:
  "tcpListeners NewForwarder (tcpKey ''127.0.0.1'' ''19001'') = None
   \<and> udpListeners NewForwarder (udpKey ''127.0.0.1'' ''19003'') = None
   \<and> StopTCPForward good_net NewForwarder ''127.0.0.1'' ''19001''
       = (Some NotRunning, NewForwarder, [Lock, MapLookup ''tcp:127.0.0.1:19001'', Unlock])
   \<and> fst (StopUDPForward good_net NewForwarder ''127.0.0.1'' ''19001'') = Some NotRunning"
  using stop_not_running [of NewForwarder "''127.0.0.1''" "''19001''" good_net]
  by (simp add: NewForwarder_def StopTCPForward_def tcpKey_def)

section \<open>Start, stop and the running query\<close>

text \<open>
  C1, as the code has it. On a platform where the bind of the listen address succeeds,
  \<open>IsTCPRunning\<close> after \<open>StartTCPForward\<close> answers true; \<open>IsTCPRunning\<close> after the
  following \<open>StopTCPForward\<close> answers false unless that stop failed with the close
  error, in which case it still answers true. The same for the UDP operations, where the
  bind is the resolution of the listen address followed by \<^verbatim>\<open>ListenUDP\<close>.
\<close>

theorem start_stop_running:
  "(net_Listen os (hostPort a p) \<noteq> None \<longrightarrow>
      fst (IsTCPRunning (fwd_of (StartTCPForward os f a p ta tp)) a p)
      \<and> (fst (IsTCPRunning
                (fwd_of (StopTCPForward os (fwd_of (StartTCPForward os f a p ta tp)) a p)) a p)
           \<longleftrightarrow> err_of (StopTCPForward os (fwd_of (StartTCPForward os f a p ta tp)) a p)
                 = Some CloseFailed))
   \<and> ((\<exists>addr. net_ResolveUDPAddr os (hostPort a p) = Some addr \<and> net_ListenUDP os addr \<noteq> None) \<longrightarrow>
      fst (IsUDPRunning (fwd_of (StartUDPForward os f a p ta tp)) a p)
      \<and> (fst (IsUDPRunning
                (fwd_of (StopUDPForward os (fwd_of (StartUDPForward os f a p ta tp)) a p)) a p)
           \<longleftrightarrow> err_of (StopUDPForward os (fwd_of (StartUDPForward os f a p ta tp)) a p)
                 = Some CloseFailed))"
  by (auto simp: StartTCPForward_def StopTCPForward_def IsTCPRunning_def
        StartUDPForward_def StopUDPForward_def IsUDPRunning_def Let_def
        split: option.splits)

theorem start_stop_running_witness:
  "net_Listen good_net (hostPort ''127.0.0.1'' ''19001'') = Some 1
   \<and> net_ResolveUDPAddr good_net (hostPort ''127.0.0.1'' ''19001'') = Some (''127.0.0.1:19001'', 0)
   \<and> net_ListenUDP good_net (''127.0.0.1:19001'', 0) = Some 2
   \<and> fst (IsTCPRunning (fwd_of (StartTCPForward good_net NewForwarder
            ''127.0.0.1'' ''19001'' ''127.0.0.1'' ''19002'')) ''127.0.0.1'' ''19001'')
   \<and> \<not> fst (IsTCPRunning
         (fwd_of (StopTCPForward good_net
            (fwd_of (StartTCPForward good_net NewForwarder
               ''127.0.0.1'' ''19001'' ''127.0.0.1'' ''19002'')) ''127.0.0.1'' ''19001''))
         ''127.0.0.1'' ''19001'')
   \<and> fst (IsUDPRunning (fwd_of (StartUDPForward good_net NewForwarder
            ''127.0.0.1'' ''19001'' ''127.0.0.1'' ''19002'')) ''127.0.0.1'' ''19001'')
   \<and> \<not> fst (IsUDPRunning
         (fwd_of (StopUDPForward good_net
            (fwd_of (StartUDPForward good_net NewForwarder
               ''127.0.0.1'' ''19001'' ''127.0.0.1'' ''19002'')) ''127.0.0.1'' ''19001''))
         ''127.0.0.1'' ''19001'')"
  using start_stop_running [of good_net "''127.0.0.1''" "''19001''" NewForwarder
      "''127.0.0.1''" "''19002''"]
  by (simp add: good_net_def NewForwarder_def hostPort_def StartTCPForward_def StopTCPForward_def
      StartUDPForward_def StopUDPForward_def IsTCPRunning_def IsUDPRunning_def tcpKey_def
      udpKey_def Let_def)

text \<open>
  C1 as stated does not hold: on a platform where the close of the listener fails, the
  start succeeds, the stop returns the close error, and the query still answers true.
\<close>

theorem start_stop_running_counterexample:
  "net_Listen bad_close_net (hostPort ''127.0.0.1'' ''19001'') = Some 1
   \<and> err_of (StartTCPForward bad_close_net NewForwarder
               ''127.0.0.1'' ''19001'' ''127.0.0.1'' ''19002'') = None
   \<and> err_of (StopTCPForward bad_close_net
        (fwd_of (StartTCPForward bad_close_net NewForwarder
           ''127.0.0.1'' ''19001'' ''127.0.0.1'' ''19002'')) ''127.0.0.1'' ''19001'')
      = Some CloseFailed
   \<and> fst (IsTCPRunning
         (fwd_of (StopTCPForward bad_close_net
            (fwd_of (StartTCPForward bad_close_net NewForwarder
               ''127.0.0.1'' ''19001'' ''127.0.0.1'' ''19002'')) ''127.0.0.1'' ''19001''))
         ''127.0.0.1'' ''19001'')"
  by (simp add: bad_close_net_def good_net_def NewForwarder_def hostPort_def StartTCPForward_def
      StopTCPForward_def IsTCPRunning_def tcpKey_def Let_def)

section \<open>Starting a relay twice\<close>

text \<open>
  C2. When a TCP session is registered for the key of a listen address and port,
  \<open>StartTCPForward\<close> with that address and port returns the already-running error,
  returns the forwarder it was given, and its trace is the lock, the lookup and the
  unlock: no bind. The same for \<open>StartUDPForward\<close> and the UDP map. Every start is one
  critical section, and a start that succeeds makes its lookup and then its insert inside
  it.
\<close>

theorem start_twice:
  "(tcpListeners f (tcpKey a p) \<noteq> None \<longrightarrow>
      StartTCPForward os f a p ta tp
        = (Some AlreadyRunning, f, [Lock, MapLookup (tcpKey a p), Unlock]))
   \<and> (udpListeners f (udpKey a p) \<noteq> None \<longrightarrow>
      StartUDPForward os f a p ta tp
        = (Some AlreadyRunning, f, [Lock, MapLookup (udpKey a p), Unlock]))
   \<and> one_critical_section (trace_of (StartTCPForward os f a p ta tp))
   \<and> one_critical_section (trace_of (StartUDPForward os f a p ta tp))
   \<and> (err_of (StartTCPForward os f a p ta tp) = None \<longrightarrow>
        filter (\<lambda>e. e \<in> {MapLookup (tcpKey a p), MapInsert (tcpKey a p)})
          (trace_of (StartTCPForward os f a p ta tp))
        = [MapLookup (tcpKey a p), MapInsert (tcpKey a p)])
   \<and> (err_of (StartUDPForward os f a p ta tp) = None \<longrightarrow>
        filter (\<lambda>e. e \<in> {MapLookup (udpKey a p), MapInsert (udpKey a p)})
          (trace_of (StartUDPForward os f a p ta tp))
        = [MapLookup (udpKey a p), MapInsert (udpKey a p)])"
  by (auto simp: StartTCPForward_def StartUDPForward_def Let_def split: option.splits)

theorem start_twice_witness:
  "tcpListeners (NewForwarder\<lparr>tcpListeners := [''tcp:127.0.0.1:19001'' \<mapsto> 7]\<rparr>)
       (tcpKey ''127.0.0.1'' ''19001'') = Some 7
   \<and> StartTCPForward good_net (NewForwarder\<lparr>tcpListeners := [''tcp:127.0.0.1:19001'' \<mapsto> 7]\<rparr>)
        ''127.0.0.1'' ''19001'' ''127.0.0.1'' ''19005''
      = (Some AlreadyRunning, NewForwarder\<lparr>tcpListeners := [''tcp:127.0.0.1:19001'' \<mapsto> 7]\<rparr>,
         [Lock, MapLookup ''tcp:127.0.0.1:19001'', Unlock])
   \<and> udpListeners (NewForwarder\<lparr>udpListeners := [''udp:127.0.0.1:19003'' \<mapsto> 8]\<rparr>)
       (udpKey ''127.0.0.1'' ''19003'') = Some 8
   \<and> StartUDPForward good_net (NewForwarder\<lparr>udpListeners := [''udp:127.0.0.1:19003'' \<mapsto> 8]\<rparr>)
        ''127.0.0.1'' ''19003'' ''127.0.0.1'' ''19004''
      = (Some AlreadyRunning, NewForwarder\<lparr>udpListeners := [''udp:127.0.0.1:19003'' \<mapsto> 8]\<rparr>,
         [Lock, MapLookup ''udp:127.0.0.1:19003'', Unlock])
   \<and> StartTCPForward good_net NewForwarder ''127.0.0.1'' ''19001'' ''127.0.0.1'' ''19002''
      = (None, NewForwarder\<lparr>tcpListeners := [''tcp:127.0.0.1:19001'' \<mapsto> 1]\<rparr>,
         [Lock, MapLookup ''tcp:127.0.0.1:19001'', CallListen ''127.0.0.1:19001'',
          MapInsert ''tcp:127.0.0.1:19001'', Go_handleTCPForward 1 ''127.0.0.1'' ''19002'',
          Log ''Started TCP forward'', Unlock])"
  using start_twice [of "NewForwarder\<lparr>tcpListeners := [''tcp:127.0.0.1:19001'' \<mapsto> 7]\<rparr>"
      "''127.0.0.1''" "''19001''" good_net "''127.0.0.1''" "''19005''"]
    start_twice [of "NewForwarder\<lparr>udpListeners := [''udp:127.0.0.1:19003'' \<mapsto> 8]\<rparr>"
      "''127.0.0.1''" "''19003''" good_net "''127.0.0.1''" "''19004''"]
  by (simp add: tcpKey_def udpKey_def NewForwarder_def StartTCPForward_def good_net_def
      hostPort_def Let_def)

section \<open>Stopping a registered relay\<close>

text \<open>
  C3, as the code has it. On a key that has a registered session, \<open>StopTCPForward\<close>
  looks the session up and closes its listener first, both under the lock. When the
  close succeeds it deletes the entry and returns no error; when the close fails it
  returns the close error and the forwarder it was given, the entry still registered.
  The same for \<open>StopUDPForward\<close>.
\<close>

theorem stop_registered:
  "(tcpListeners f (tcpKey a p) = Some l \<longrightarrow>
      StopTCPForward os f a p =
        (if listener_Close os l
         then (None, f\<lparr>tcpListeners := (tcpListeners f)(tcpKey a p := None)\<rparr>,
               [Lock, MapLookup (tcpKey a p), CallCloseListener l, MapDelete (tcpKey a p),
                Log ''Stopped TCP forward'', Unlock])
         else (Some CloseFailed, f,
               [Lock, MapLookup (tcpKey a p), CallCloseListener l, Unlock])))
   \<and> (udpListeners f (udpKey a p) = Some c \<longrightarrow>
      StopUDPForward os f a p =
        (if udpconn_Close os c
         then (None, f\<lparr>udpListeners := (udpListeners f)(udpKey a p := None)\<rparr>,
               [Lock, MapLookup (udpKey a p), CallCloseUDPConn c, MapDelete (udpKey a p),
                Log ''Stopped UDP forward'', Unlock])
         else (Some CloseFailed, f,
               [Lock, MapLookup (udpKey a p), CallCloseUDPConn c, Unlock])))"
  by (simp add: StopTCPForward_def StopUDPForward_def Let_def)

theorem stop_registered_witness:
  "tcpListeners (NewForwarder\<lparr>tcpListeners := [''tcp:0.0.0.0:8080'' \<mapsto> 4]\<rparr>)
       (tcpKey ''0.0.0.0'' ''8080'') = Some 4
   \<and> listener_Close good_net 4
   \<and> StopTCPForward good_net (NewForwarder\<lparr>tcpListeners := [''tcp:0.0.0.0:8080'' \<mapsto> 4]\<rparr>)
        ''0.0.0.0'' ''8080''
      = (None, NewForwarder,
         [Lock, MapLookup ''tcp:0.0.0.0:8080'', CallCloseListener 4,
          MapDelete ''tcp:0.0.0.0:8080'', Log ''Stopped TCP forward'', Unlock])
   \<and> udpListeners (NewForwarder\<lparr>udpListeners := [''udp:0.0.0.0:5353'' \<mapsto> 5]\<rparr>)
       (udpKey ''0.0.0.0'' ''5353'') = Some 5
   \<and> \<not> udpconn_Close bad_close_net 5
   \<and> StopUDPForward bad_close_net (NewForwarder\<lparr>udpListeners := [''udp:0.0.0.0:5353'' \<mapsto> 5]\<rparr>)
        ''0.0.0.0'' ''5353''
      = (Some CloseFailed, NewForwarder\<lparr>udpListeners := [''udp:0.0.0.0:5353'' \<mapsto> 5]\<rparr>,
         [Lock, MapLookup ''udp:0.0.0.0:5353'', CallCloseUDPConn 5, Unlock])"
  using stop_registered [of "NewForwarder\<lparr>tcpListeners := [''tcp:0.0.0.0:8080'' \<mapsto> 4]\<rparr>"
      "''0.0.0.0''" "''8080''" 4 good_net]
    stop_registered [of "NewForwarder\<lparr>udpListeners := [''udp:0.0.0.0:5353'' \<mapsto> 5]\<rparr>"
      "''0.0.0.0''" "''5353''" _ bad_close_net 5]
  by (simp add: tcpKey_def udpKey_def NewForwarder_def good_net_def bad_close_net_def)

text \<open>
  C3 as stated does not hold: after a stop whose close fails the entry of the key is
  still in the map; and in a stop that succeeds the close comes before the delete.
\<close>

theorem stop_registered_counterexample:
  "tcpListeners (NewForwarder\<lparr>tcpListeners := [''tcp:0.0.0.0:8080'' \<mapsto> 4]\<rparr>)
       (tcpKey ''0.0.0.0'' ''8080'') = Some 4
   \<and> err_of (StopTCPForward bad_close_net
         (NewForwarder\<lparr>tcpListeners := [''tcp:0.0.0.0:8080'' \<mapsto> 4]\<rparr>) ''0.0.0.0'' ''8080'')
       = Some CloseFailed
   \<and> tcpListeners (fwd_of (StopTCPForward bad_close_net
         (NewForwarder\<lparr>tcpListeners := [''tcp:0.0.0.0:8080'' \<mapsto> 4]\<rparr>) ''0.0.0.0'' ''8080''))
       (tcpKey ''0.0.0.0'' ''8080'') = Some 4
   \<and> trace_of (StopTCPForward good_net
         (NewForwarder\<lparr>tcpListeners := [''tcp:0.0.0.0:8080'' \<mapsto> 4]\<rparr>) ''0.0.0.0'' ''8080'')
       = [Lock, MapLookup ''tcp:0.0.0.0:8080'', CallCloseListener 4,
          MapDelete ''tcp:0.0.0.0:8080'', Log ''Stopped TCP forward'', Unlock]"
  by (simp add: StopTCPForward_def tcpKey_def NewForwarder_def good_net_def bad_close_net_def
      Let_def)

section \<open>The scope of the lock\<close>



section \<open>Port strings\<close>

text \<open>
  C6, as the code has it. The start operations do not parse the port. For a key that is
  not registered, \<open>StartTCPForward\<close> joins the address and the port with a colon, hands
  that string to the platform's listen call, and fails with the listen error exactly when
  that call fails, leaving the forwarder as it was; otherwise it registers the listener
  that the call returned. \<open>StartUDPForward\<close> hands the same string to the platform's
  address resolution and the resolved address to the bind, fails when one of the two
  fails, leaving the forwarder as it was, and registers a session otherwise.
\<close>

theorem start_port_unchecked:
  "(tcpListeners f (tcpKey a p) = None \<longrightarrow>
      (err_of (StartTCPForward os f a p ta tp) = None
         \<longleftrightarrow> net_Listen os (hostPort a p) \<noteq> None)
      \<and> (err_of (StartTCPForward os f a p ta tp) = Some ListenFailed
         \<longleftrightarrow> net_Listen os (hostPort a p) = None)
      \<and> (tcpListeners (fwd_of (StartTCPForward os f a p ta tp)) (tcpKey a p)
           = net_Listen os (hostPort a p))
      \<and> (net_Listen os (hostPort a p) = None \<longrightarrow> fwd_of (StartTCPForward os f a p ta tp) = f)
      \<and> filter is_io (trace_of (StartTCPForward os f a p ta tp)) = [CallListen (a @ '':'' @ p)])
   \<and> (udpListeners f (udpKey a p) = None \<longrightarrow>
      (err_of (StartUDPForward os f a p ta tp) = None
         \<longleftrightarrow> (\<exists>addr. net_ResolveUDPAddr os (hostPort a p) = Some addr
                    \<and> net_ListenUDP os addr \<noteq> None))
      \<and> (err_of (StartUDPForward os f a p ta tp) = Some ResolveFailed
         \<longleftrightarrow> net_ResolveUDPAddr os (hostPort a p) = None)
      \<and> (err_of (StartUDPForward os f a p ta tp) = Some ListenFailed
         \<longleftrightarrow> (\<exists>addr. net_ResolveUDPAddr os (hostPort a p) = Some addr
                    \<and> net_ListenUDP os addr = None))
      \<and> (err_of (StartUDPForward os f a p ta tp) \<noteq> None
         \<longrightarrow> fwd_of (StartUDPForward os f a p ta tp) = f)
      \<and> (err_of (StartUDPForward os f a p ta tp) = None
         \<longrightarrow> udpListeners (fwd_of (StartUDPForward os f a p ta tp)) (udpKey a p) \<noteq> None)
      \<and> filter is_resolve (trace_of (StartUDPForward os f a p ta tp))
           = [CallResolveUDPAddr (a @ '':'' @ p)])"
  by (auto simp: StartTCPForward_def StartUDPForward_def hostPort_def Let_def
      split: option.splits)

theorem start_port_unchecked_witness:
  "tcpListeners NewForwarder (tcpKey ''127.0.0.1'' ''abc'') = None
   \<and> udpListeners NewForwarder (udpKey ''127.0.0.1'' ''70000'') = None
   \<and> net_Listen no_bind_net (hostPort ''127.0.0.1'' ''abc'') = None
   \<and> err_of (StartTCPForward no_bind_net NewForwarder ''127.0.0.1'' ''abc'' ''10.0.0.1'' ''80'')
       = Some ListenFailed
   \<and> fwd_of (StartTCPForward no_bind_net NewForwarder ''127.0.0.1'' ''abc'' ''10.0.0.1'' ''80'')
       = NewForwarder
   \<and> err_of (StartUDPForward no_bind_net NewForwarder ''127.0.0.1'' ''70000'' ''10.0.0.1'' ''80'')
       = Some ResolveFailed
   \<and> fwd_of (StartUDPForward no_bind_net NewForwarder ''127.0.0.1'' ''70000'' ''10.0.0.1'' ''80'')
       = NewForwarder"
  using start_port_unchecked [of NewForwarder "''127.0.0.1''" "''abc''" no_bind_net
      "''10.0.0.1''" "''80''"]
    start_port_unchecked [of NewForwarder "''127.0.0.1''" "''70000''" no_bind_net
      "''10.0.0.1''" "''80''"]
  by (simp add: NewForwarder_def no_bind_net_def good_net_def)

text \<open>
  C6 as stated does not hold. The port \<^verbatim>\<open>0\<close> is outside the range 1 to 65535, and
  for it Go's listen calls choose a free port and succeed. On a platform that accepts
  the address \<^verbatim>\<open>127.0.0.1:0\<close> both start operations return no error and register a
  session under the key with the port \<^verbatim>\<open>0\<close>.
\<close>

theorem start_port_unchecked_counterexample:
  "\<not> spec_port_ok ''0''
   \<and> err_of (StartTCPForward good_net NewForwarder ''127.0.0.1'' ''0'' ''10.0.0.1'' ''80'') = None
   \<and> tcpListeners
        (fwd_of (StartTCPForward good_net NewForwarder ''127.0.0.1'' ''0'' ''10.0.0.1'' ''80''))
        (tcpKey ''127.0.0.1'' ''0'') = Some 1
   \<and> err_of (StartUDPForward good_net NewForwarder ''127.0.0.1'' ''0'' ''10.0.0.1'' ''80'') = None
   \<and> udpListeners
        (fwd_of (StartUDPForward good_net NewForwarder ''127.0.0.1'' ''0'' ''10.0.0.1'' ''80''))
        (udpKey ''127.0.0.1'' ''0'') = Some 2"
  by (simp add: spec_port_ok_def spec_port_number_def StartTCPForward_def StartUDPForward_def
      NewForwarder_def good_net_def hostPort_def tcpKey_def udpKey_def Let_def)

section \<open>Session keys\<close>






section \<open>Shutdown of the byte pump\<close>

lemma copyLoop_ends: "snd (copyLoop src dst s) = list_ex ends_copy s"
  by (induction src dst s rule: copyLoop.induct) simp_all

lemma copyLoop_no_close: "closes (fst (copyLoop src dst s)) = []"
  by (induction src dst s rule: copyLoop.induct) (simp_all add: closes_def)

text \<open>
  C5, as the code has it. A copy task ends exactly when its own script reaches a round
  that ends it: a read that returns end of stream or an error, or a failed write of a
  non-empty chunk. It closes nothing. \<open>forwardData\<close> returns exactly when both tasks
  have ended, and the function that called it closes the target connection and then the
  inbound connection at that moment and not before. So when one direction has ended
  and the read of the other never returns, no connection is closed and the function
  does not return.
\<close>

theorem pump_shutdown:
  "net_Dial os target = Some tc \<longrightarrow>
     snd (copyLoop c tc s2d) = list_ex ends_copy s2d
     \<and> snd (copyLoop tc c d2s) = list_ex ends_copy d2s
     \<and> closes (fst (copyLoop c tc s2d)) = []
     \<and> closes (fst (copyLoop tc c d2s)) = []
     \<and> snd (snd (forwardData c tc s2d d2s)) = (list_ex ends_copy s2d \<and> list_ex ends_copy d2s)
     \<and> handleTCPForward_conn os c target s2d d2s =
         (if list_ex ends_copy s2d \<and> list_ex ends_copy d2s
          then ([CallDial target, CallCloseConn tc, CallCloseConn c], True)
          else ([CallDial target], False))"
  by (simp add: copyLoop_ends copyLoop_no_close forwardData_def handleTCPForward_conn_def)

theorem pump_shutdown_witness:
  "net_Dial good_net ''10.0.0.1:80'' = Some 3
   \<and> handleTCPForward_conn good_net 5 ''10.0.0.1:80''
        [(ReadData [112, 105, 110, 103], True), (ReadEOF, True)]
        [(ReadData [112, 105, 110, 103], True), (ReadIOError, True)]
      = ([CallDial ''10.0.0.1:80'', CallCloseConn 3, CallCloseConn 5], True)
   \<and> forwardData 5 3
        [(ReadData [112, 105, 110, 103], True), (ReadEOF, True)]
        [(ReadData [112, 105, 110, 103], True), (ReadIOError, True)]
      = ([CallRead 5, CallWrite 3 [112, 105, 110, 103], CallRead 5],
         [CallRead 3, CallWrite 5 [112, 105, 110, 103], CallRead 3], True)"
  using pump_shutdown [of good_net "''10.0.0.1:80''" 3 5
      "[(ReadData [112, 105, 110, 103], True), (ReadEOF, True)]"
      "[(ReadData [112, 105, 110, 103], True), (ReadIOError, True)]"]
  by (simp add: good_net_def forwardData_def)

text \<open>
  C5 as stated does not hold. The client closes and the target stays silent: the task
  that reads the inbound connection sees the end of stream and ends, the other task
  stays in its read, \<open>forwardData\<close> does not return and neither connection is closed.
  The same when the target side fails with a read error and the client stays silent.
\<close>

theorem pump_shutdown_counterexample:
  "net_Dial good_net ''10.0.0.1:80'' = Some 3
   \<and> copyLoop 5 3 [(ReadEOF, True)] = ([CallRead 5], True)
   \<and> copyLoop 3 5 [] = ([CallRead 3], False)
   \<and> forwardData 5 3 [(ReadEOF, True)] [] = ([CallRead 5], [CallRead 3], False)
   \<and> handleTCPForward_conn good_net 5 ''10.0.0.1:80'' [(ReadEOF, True)] [] = ([CallDial ''10.0.0.1:80''], False)
   \<and> handleTCPForward_conn good_net 5 ''10.0.0.1:80'' [] [(ReadIOError, True)]
       = ([CallDial ''10.0.0.1:80''], False)"
  by (simp add: good_net_def forwardData_def handleTCPForward_conn_def)

section \<open>The receive loop of the datagram relay\<close>







section \<open>A datagram relay whose target does not resolve\<close>

text \<open>
  C10. For a key that is not registered, on a platform where the listen address resolves
  and binds and the target does not resolve: \<open>StartUDPForward\<close> returns no error and
  registers the bound socket, and the only address it resolves is the listen address.
  The relay task it launches resolves the target, logs the error and returns at once,
  whatever the socket would deliver. The running query answers true after the start,
  and after a following stop it answers false when the close succeeded.
\<close>

theorem udp_target_unchecked:
  "udpListeners f (udpKey a p) = None
   \<and> net_ResolveUDPAddr os (hostPort a p) = Some addr
   \<and> net_ListenUDP os addr = Some conn
   \<and> net_ResolveUDPAddr os (hostPort ta tp) = None \<longrightarrow>
     err_of (StartUDPForward os f a p ta tp) = None
     \<and> udpListeners (fwd_of (StartUDPForward os f a p ta tp)) (udpKey a p) = Some conn
     \<and> filter is_resolve (trace_of (StartUDPForward os f a p ta tp))
         = [CallResolveUDPAddr (hostPort a p)]
     \<and> Go_handleUDPForward conn ta tp \<in> set (trace_of (StartUDPForward os f a p ta tp))
     \<and> handleUDPForward os conn ta tp s
         = ([CallResolveUDPAddr (hostPort ta tp), Log ''Error resolving target address''], True)
     \<and> fst (IsUDPRunning (fwd_of (StartUDPForward os f a p ta tp)) a p)
     \<and> fst (IsUDPRunning
              (fwd_of (StopUDPForward os (fwd_of (StartUDPForward os f a p ta tp)) a p)) a p)
         = (\<not> udpconn_Close os conn)"
  by (simp add: StartUDPForward_def StopUDPForward_def IsUDPRunning_def handleUDPForward_def
      Let_def)

theorem udp_target_unchecked_witness:
  "udpListeners NewForwarder (udpKey ''127.0.0.1'' ''19003'') = None
   \<and> net_ResolveUDPAddr one_addr_net (hostPort ''127.0.0.1'' ''19003'') = Some (''127.0.0.1'', 19003)
   \<and> net_ListenUDP one_addr_net (''127.0.0.1'', 19003) = Some 2
   \<and> net_ResolveUDPAddr one_addr_net (hostPort ''no.such.host'' ''19004'') = None
   \<and> err_of (StartUDPForward one_addr_net NewForwarder
        ''127.0.0.1'' ''19003'' ''no.such.host'' ''19004'') = None
   \<and> handleUDPForward one_addr_net 2 ''no.such.host'' ''19004''
        [(Datagram [104, 105] (''192.0.2.1'', 5000), True)]
      = ([CallResolveUDPAddr ''no.such.host:19004'', Log ''Error resolving target address''], True)
   \<and> fst (IsUDPRunning (fwd_of (StartUDPForward one_addr_net NewForwarder
        ''127.0.0.1'' ''19003'' ''no.such.host'' ''19004'')) ''127.0.0.1'' ''19003'')
   \<and> \<not> fst (IsUDPRunning
        (fwd_of (StopUDPForward one_addr_net
           (fwd_of (StartUDPForward one_addr_net NewForwarder
              ''127.0.0.1'' ''19003'' ''no.such.host'' ''19004'')) ''127.0.0.1'' ''19003''))
        ''127.0.0.1'' ''19003'')"
  using udp_target_unchecked [of NewForwarder "''127.0.0.1''" "''19003''" one_addr_net
      "(''127.0.0.1'', 19003)" 2 "''no.such.host''" "''19004''"
      "[(Datagram [104, 105] (''192.0.2.1'', 5000), True)]"]
  by (simp add: NewForwarder_def one_addr_net_def good_net_def hostPort_def)

end
